theory Spec2Isabelle
  imports Main "HOL-Library.Sublist"
begin

section \<open>Python strings\<close>

text \<open>
  Strings are lists of 8-bit characters. The case functions below act on the ASCII
  letters only, which is what Python's \<^verbatim>\<open>str.lower\<close> and \<^verbatim>\<open>str.capitalize\<close> do on
  ASCII text; characters outside ASCII are left as they are.
\<close>

definition upper_letters :: string where
  "upper_letters = ''ABCDEFGHIJKLMNOPQRSTUVWXYZ''"

definition lower_letters :: string where
  "lower_letters = ''abcdefghijklmnopqrstuvwxyz''"

definition is_lower :: "char \<Rightarrow> bool" where
  "is_lower c = (c \<in> set lower_letters)"

definition lower_char :: "char \<Rightarrow> char" where
  "lower_char c = (case map_of (zip upper_letters lower_letters) c of Some d \<Rightarrow> d | None \<Rightarrow> c)"

definition upper_char :: "char \<Rightarrow> char" where
  "upper_char c = (case map_of (zip lower_letters upper_letters) c of Some d \<Rightarrow> d | None \<Rightarrow> c)"

definition lower :: "string \<Rightarrow> string" where
  "lower s = map lower_char s"

fun capitalize :: "string \<Rightarrow> string" where
  "capitalize [] = []"
| "capitalize (c # cs) = upper_char c # lower cs"

text \<open>\<^verbatim>\<open>s.endswith(t)\<close> and \<^verbatim>\<open>t in s\<close>.\<close>

definition endswith :: "string \<Rightarrow> string \<Rightarrow> bool" where
  "endswith s t = (length t \<le> length s \<and> drop (length s - length t) s = t)"

fun contains :: "string \<Rightarrow> string \<Rightarrow> bool" where
  "contains t [] = (t = [])"
| "contains t (c # cs) = (take (length t) (c # cs) = t \<or> contains t cs)"

text \<open>\<^verbatim>\<open>s.split(sep)\<close> for a separator of one character.\<close>

fun split_acc :: "char \<Rightarrow> string \<Rightarrow> string \<Rightarrow> string list" where
  "split_acc sep cur [] = [cur]"
| "split_acc sep cur (c # cs) =
     (if c = sep then cur # split_acc sep [] cs else split_acc sep (cur @ [c]) cs)"

definition split :: "string \<Rightarrow> char \<Rightarrow> string list" where
  "split s sep = split_acc sep [] s"

text \<open>\<^verbatim>\<open>sep.join(parts)\<close>.\<close>

fun join :: "string \<Rightarrow> string list \<Rightarrow> string" where
  "join sep [] = []"
| "join sep [p] = p"
| "join sep (p # q # ps) = p @ sep @ join sep (q # ps)"

text \<open>
  \<^verbatim>\<open>s.strip()\<close>: the ASCII characters for which \<^verbatim>\<open>str.isspace\<close> holds are
  9 to 13, 28 to 31 and 32.
\<close>

definition is_space :: "char \<Rightarrow> bool" where
  "is_space c = (c \<in> set [CHR 0x09, CHR 0x0A, CHR 0x0B, CHR 0x0C, CHR 0x0D,
                            CHR 0x1C, CHR 0x1D, CHR 0x1E, CHR 0x1F, CHR '' ''])"

definition strip :: "string \<Rightarrow> string" where
  "strip s = rev (dropWhile is_space (rev (dropWhile is_space s)))"

text \<open>\<^verbatim>\<open>str(n)\<close> of an integer: decimal digits, with a minus sign for negatives.\<close>

definition digit_char :: "nat \<Rightarrow> char" where
  "digit_char d = ''0123456789'' ! d"

fun str_nat :: "nat \<Rightarrow> string" where
  "str_nat n = (if n < 10 then [digit_char n] else str_nat (n div 10) @ [digit_char (n mod 10)])"

declare str_nat.simps [simp del]

definition str_int :: "int \<Rightarrow> string" where
  "str_int i = (if i < 0 then CHR ''-'' # str_nat (nat (- i)) else str_nat (nat i))"

text \<open>Truth value of a string: \<^verbatim>\<open>if s:\<close>.\<close>

definition truthy_str :: "string \<Rightarrow> bool" where
  "truthy_str s = (s \<noteq> [])"

section \<open>POSIX paths (\<^verbatim>\<open>os.path\<close>)\<close>

text \<open>
  \<^verbatim>\<open>p.rfind(c) + 1\<close>: the position just after the last occurrence of \<open>c\<close>, and 0 when
  there is none.
\<close>

fun after_last :: "char \<Rightarrow> string \<Rightarrow> nat" where
  "after_last c [] = 0"
| "after_last c (x # xs) =
     (if c \<in> set xs then Suc (after_last c xs) else if x = c then 1 else 0)"

definition basename :: "string \<Rightarrow> string" where
  "basename p = drop (after_last CHR ''/'' p) p"

text \<open>
  \<^verbatim>\<open>dirname\<close> keeps a head made of slashes only and strips the trailing slashes of any
  other head.
\<close>

definition dirname :: "string \<Rightarrow> string" where
  "dirname p =
     (let head = take (after_last CHR ''/'' p) p
      in if head \<noteq> [] \<and> (\<exists>c \<in> set head. c \<noteq> CHR ''/'')
         then rev (dropWhile (\<lambda>c. c = CHR ''/'') (rev head)) else head)"

text \<open>
  \<^verbatim>\<open>splitext\<close>: the extension starts at the last dot of the last component, unless
  only dots precede it there.
\<close>

definition splitext :: "string \<Rightarrow> string \<times> string" where
  "splitext p =
     (let sepIndex = after_last CHR ''/'' p;
          dotEnd = after_last CHR ''.'' p
      in if sepIndex < dotEnd \<and> (\<exists>c \<in> set (take (dotEnd - 1 - sepIndex) (drop sepIndex p)). c \<noteq> CHR ''.'')
         then (take (dotEnd - 1) p, drop (dotEnd - 1) p)
         else (p, []))"

text \<open>\<^verbatim>\<open>os.path.join(a, b)\<close> with two arguments.\<close>

definition path_join :: "string \<Rightarrow> string \<Rightarrow> string" where
  "path_join a b =
     (if b \<noteq> [] \<and> hd b = CHR ''/'' then b
      else if a = [] \<or> last a = CHR ''/'' then a @ b
      else a @ ''/'' @ b)"

section \<open>The file system\<close>

text \<open>
  The regular files are the paths in a finite list; paths are compared as strings, so
  two spellings of one file are two entries.
\<close>

type_synonym fs = "string list"

definition isfile :: "fs \<Rightarrow> string \<Rightarrow> bool" where
  "isfile fs p = (p \<in> set fs)"

definition os_remove :: "string \<Rightarrow> fs \<Rightarrow> fs" where
  "os_remove p fs = removeAll p fs"

definition os_rename :: "string \<Rightarrow> string \<Rightarrow> fs \<Rightarrow> fs" where
  "os_rename src dst fs = dst # removeAll src (removeAll dst fs)"

section \<open>Exceptions and external effects\<close>

datatype py_exception =
  ValueError | TypeError | ArgumentTypeError | JSONDecodeError | KeyError
  | FileNotFoundError | EOFError

section \<open>movieconvert: the CRF option\<close>

text \<open>
  \<^verbatim>\<open>crf_range\<close>, the \<^verbatim>\<open>type=\<close> function of the \<^verbatim>\<open>--crf-value\<close> option. Python's
  built-in \<^verbatim>\<open>int\<close> on strings is the parameter \<open>int_of\<close>: it gives the integer that the
  text denotes, and \<open>None\<close> where \<^verbatim>\<open>int\<close> raises its \<^verbatim>\<open>ValueError\<close>.
\<close>

definition crf_range :: "(string \<Rightarrow> int option) \<Rightarrow> string \<Rightarrow> py_exception + int" where
  "crf_range int_of v =
     (case int_of v of
        None \<Rightarrow> Inl ValueError
      | Some ivalue \<Rightarrow>
          if ivalue < 0 \<or> ivalue > 51 then Inl ArgumentTypeError else Inr ivalue)"

text \<open>
  \<^verbatim>\<open>argparse\<close> turns an \<^verbatim>\<open>ArgumentTypeError\<close>, \<^verbatim>\<open>TypeError\<close> or \<^verbatim>\<open>ValueError\<close> of a type
  function into \<^verbatim>\<open>parser.error\<close>, which prints the usage and exits with status 2.
\<close>

definition argparse_error_status :: int where
  "argparse_error_status = 2"

text \<open>
  The value of \<^verbatim>\<open>args.crf_value\<close> after \<^verbatim>\<open>parse_args\<close> (line 44): \<open>None\<close> when the
  option is absent, and the process exit status when the type function raises.
\<close>

definition parse_crf_value :: "(string \<Rightarrow> int option) \<Rightarrow> string option \<Rightarrow> int + int option" where
  "parse_crf_value int_of arg =
     (case arg of
        None \<Rightarrow> Inr None
      | Some v \<Rightarrow>
          (case crf_range int_of v of Inl e \<Rightarrow> Inl argparse_error_status | Inr i \<Rightarrow> Inr (Some i)))"

section \<open>movieconvert: the output file name\<close>

datatype container = Mp4 | Mkv

fun container_str :: "container \<Rightarrow> string" where
  "container_str Mp4 = ''mp4''"
| "container_str Mkv = ''mkv''"

text \<open>\<^verbatim>\<open>f"{base}.{container}"\<close> and \<^verbatim>\<open>f"{base}.{counter}.{container}"\<close>.\<close>

definition plain_name :: "string \<Rightarrow> container \<Rightarrow> string" where
  "plain_name base c = base @ ''.'' @ container_str c"

definition numbered_name :: "string \<Rightarrow> container \<Rightarrow> nat \<Rightarrow> string" where
  "numbered_name base c k = base @ ''.'' @ str_nat k @ ''.'' @ container_str c"

text \<open>The candidate sequence base.container, base.1.container, base.2.container, ...\<close>

definition candidate :: "string \<Rightarrow> container \<Rightarrow> nat \<Rightarrow> string" where
  "candidate base c k = (if k = 0 then plain_name base c else numbered_name base c k)"

text \<open>
  The loop of \<^verbatim>\<open>main\<close> that picks the output name. It returns the name and the final
  value of \<^verbatim>\<open>counter\<close>; \<open>None\<close> is a loop that does not end.
\<close>

partial_function (option) find_free :: "fs \<Rightarrow> string \<Rightarrow> container \<Rightarrow> string \<Rightarrow> nat \<Rightarrow> (string \<times> nat) option" where
  "find_free fs base c output_file counter =
     (if isfile fs output_file then find_free fs base c (numbered_name base c counter) (counter + 1)
      else Some (output_file, counter))"

declare find_free.simps [code]

definition choose_output :: "fs \<Rightarrow> string \<Rightarrow> container \<Rightarrow> (string \<times> nat) option" where
  "choose_output fs base c = find_free fs base c (plain_name base c) 1"

section \<open>movieconvert: subtitle files next to the input\<close>

text \<open>
  One entry of \<^verbatim>\<open>subfiles_in\<close>; the fields are the keys of the dictionary, with the
  prefix \<open>sf_\<close>.
\<close>

record subfile =
  sf_index :: nat
  sf_codec :: string
  sf_language :: string
  sf_default :: int
  sf_forced :: int
  sf_sdh :: int
  sf_title :: string
  sf_filename :: string

text \<open>The variables that the loop over the parts of a file name updates.\<close>

record tags =
  lang :: string
  forced :: int
  sdh :: int
  title_parts :: "string list"

definition tag_step :: "tags \<Rightarrow> string \<Rightarrow> tags" where
  "tag_step st part =
     (if part \<in> set [''en'', ''eng''] then st\<lparr>lang := ''eng'', title_parts := title_parts st @ [''English'']\<rparr>
      else if part = ''forced'' then st\<lparr>forced := 1, title_parts := title_parts st @ [''Forced'']\<rparr>
      else if part = ''sdh'' then st\<lparr>sdh := 1, title_parts := title_parts st @ [''SDH'']\<rparr>
      else st)"

definition parse_tags :: "string list \<Rightarrow> tags" where
  "parse_tags parts = foldl tag_step \<lparr>lang = ''eng'', forced = 0, sdh = 0, title_parts = []\<rparr> parts"

definition srt_entry :: "string \<Rightarrow> string \<Rightarrow> nat \<Rightarrow> string \<Rightarrow> subfile" where
  "srt_entry directory base_name i filename =
     (let parts = split (lower (drop (length base_name) filename)) CHR ''.'';
          st = parse_tags parts;
          title = (if title_parts st \<noteq> [] then join '' '' (title_parts st) else ''English'')
      in \<lparr>sf_index = i, sf_codec = ''srt'', sf_language = lang st, sf_default = 0,
          sf_forced = forced st, sf_sdh = sdh st, sf_title = title,
          sf_filename = path_join directory filename\<rparr>)"

definition is_subtitle_of :: "string \<Rightarrow> string \<Rightarrow> bool" where
  "is_subtitle_of base_name filename = (endswith (lower filename) ''.srt'' \<and> contains base_name filename)"

fun scan_subfiles :: "string \<Rightarrow> string \<Rightarrow> nat \<Rightarrow> string list \<Rightarrow> subfile list" where
  "scan_subfiles directory base_name i [] = []"
| "scan_subfiles directory base_name i (filename # rest) =
     (if is_subtitle_of base_name filename
      then srt_entry directory base_name i filename # scan_subfiles directory base_name (i + 1) rest
      else scan_subfiles directory base_name i rest)"

section \<open>ffmpegfe: subtitle files next to the input\<close>

text \<open>
  The regular expression of \<^verbatim>\<open>get_srt_filenames\<close>,
  \<^verbatim>\<open>^(.+?)(?:\.([a-z]{2}))?(?:\.(forced))?(?:\.(sdh))?\.srt$\<close>, as the backtracking
  matcher runs it: the first group grows one character at a time (a dot does not match a
  line feed), each optional group is tried present before absent, and \<^verbatim>\<open>$\<close> matches at
  the end or before a final line feed. The results are groups 2, 3 and 4.
\<close>

definition match_end :: "string \<Rightarrow> bool" where
  "match_end r = (r = ''.srt'' \<or> r = ''.srt'' @ [CHR 0x0A])"

definition match_sdh :: "string \<Rightarrow> bool option" where
  "match_sdh r =
     (if take 4 r = ''.sdh'' \<and> match_end (drop 4 r) then Some True
      else if match_end r then Some False else None)"

definition match_forced :: "string \<Rightarrow> (bool \<times> bool) option" where
  "match_forced r =
     (case (if take 7 r = ''.forced'' then match_sdh (drop 7 r) else None) of
        Some s \<Rightarrow> Some (True, s)
      | None \<Rightarrow> map_option (\<lambda>s. (False, s)) (match_sdh r))"

definition match_lang :: "string \<Rightarrow> (string option \<times> bool \<times> bool) option" where
  "match_lang r =
     (case (if length r \<ge> 3 \<and> hd r = CHR ''.'' \<and> is_lower (r ! 1) \<and> is_lower (r ! 2)
            then match_forced (drop 3 r) else None) of
        Some fs \<Rightarrow> Some (Some (take 2 (drop 1 r)), fs)
      | None \<Rightarrow> map_option (\<lambda>fs. (None, fs)) (match_forced r))"

fun match_from :: "string \<Rightarrow> (string option \<times> bool \<times> bool) option" where
  "match_from [] = None"
| "match_from (c # cs) =
     (if c = CHR 0x0A then None
      else case match_lang cs of Some g \<Rightarrow> Some g | None \<Rightarrow> match_from cs)"

definition re_match_srt :: "string \<Rightarrow> (string option \<times> bool \<times> bool) option" where
  "re_match_srt s = match_from s"

text \<open>
  \<^verbatim>\<open>os.listdir\<close>: a directory has a listing or none (then the call raises; the kinds
  of \<^verbatim>\<open>OSError\<close> are not told apart); the empty path never names a directory.
\<close>

definition os_listdir :: "(string \<Rightarrow> string list option) \<Rightarrow> string \<Rightarrow> py_exception + string list" where
  "os_listdir dirs d =
     (if d = [] then Inl FileNotFoundError
      else case dirs d of None \<Rightarrow> Inl FileNotFoundError | Some l \<Rightarrow> Inr l)"

fun fe_scan :: "string \<Rightarrow> string \<Rightarrow> string list \<Rightarrow> (string \<times> string \<times> int \<times> int) list" where
  "fe_scan directory base [] = []"
| "fe_scan directory base (filename # rest) =
     (if endswith (lower filename) ''.srt'' \<and> contains base filename
      then (case re_match_srt (lower filename) of
              Some (g2, g3, g4) \<Rightarrow>
                (path_join directory filename,
                 (case g2 of Some l \<Rightarrow> l | None \<Rightarrow> ''en''),
                 (if g3 then 1 else 0), (if g4 then 1 else 0)) # fe_scan directory base rest
            | None \<Rightarrow> fe_scan directory base rest)
      else fe_scan directory base rest)"

definition get_srt_filenames :: "(string \<Rightarrow> string list option) \<Rightarrow> string \<Rightarrow> py_exception + (string \<times> string \<times> int \<times> int) list" where
  "get_srt_filenames dirs file_path =
     (let base = fst (splitext (basename file_path));
          directory = dirname file_path
      in case os_listdir dirs directory of
           Inl e \<Rightarrow> Inl e
         | Inr listing \<Rightarrow>
             (let subtitle_files = fe_scan directory base listing
              in Inr (if subtitle_files \<noteq> [] then subtitle_files
                      else [(''No srt files present'', ''en'', 0, 0)])))"

section \<open>movieconvert: command-line options\<close>

text \<open>
  The namespace that \<^verbatim>\<open>parse_args\<close> returns, without \<^verbatim>\<open>crf_value\<close>, which \<^verbatim>\<open>main\<close>
  receives beside it. The \<^verbatim>\<open>choices\<close> of the parser are the constructors.
\<close>

datatype video_codec = VCopy | Avc | Hevc

datatype audio_codec = ACopy | Aac | Ac3 | Eac3

fun video_codec_str :: "video_codec \<Rightarrow> string" where
  "video_codec_str VCopy = ''copy''"
| "video_codec_str Avc = ''avc''"
| "video_codec_str Hevc = ''hevc''"

fun audio_codec_str :: "audio_codec \<Rightarrow> string" where
  "audio_codec_str ACopy = ''copy''"
| "audio_codec_str Aac = ''aac''"
| "audio_codec_str Ac3 = ''ac3''"
| "audio_codec_str Eac3 = ''eac3''"

record options =
  input :: string
  container :: container
  video_codec :: video_codec
  rescale_to_720 :: bool
  audio_codec :: audio_codec
  audio_to_stereo :: bool
  subtitle :: bool
  delete :: bool
  no_prompt :: bool
  verbose :: bool

section \<open>movieconvert: streams of the input\<close>

text \<open>
  A value of the inspection output: an integer or a string. A stream is the dictionary
  of one entry of \<^verbatim>\<open>"streams"\<close>, an absent key being \<open>None\<close>; the keys that the code
  treats with string methods hold strings.
\<close>

datatype jval = JInt int | JStr string

fun str_jval :: "jval \<Rightarrow> string" where
  "str_jval (JInt i) = str_int i"
| "str_jval (JStr s) = s"

fun truthy :: "jval \<Rightarrow> bool" where
  "truthy (JInt i) = (i \<noteq> 0)"
| "truthy (JStr s) = (s \<noteq> [])"

record stream =
  s_index :: "jval option"
  s_codec_type :: "string option"
  s_codec_name :: "string option"
  s_width :: "jval option"
  s_height :: "jval option"
  s_channels :: "jval option"
  s_tag_language :: "string option"
  s_tag_title :: "string option"
  s_disp_default :: "jval option"
  s_disp_forced :: "jval option"
  s_disp_hearing_impaired :: "jval option"

text \<open>The result of \<^verbatim>\<open>json.loads(result.stdout)["streams"]\<close>.\<close>

datatype probe = BadJSON | NoStreamsKey | Streams "stream list"

text \<open>\<^verbatim>\<open>d.get(key, default)\<close>.\<close>

definition get_or :: "'a option \<Rightarrow> 'a \<Rightarrow> 'a" where
  "get_or v d = (case v of Some x \<Rightarrow> x | None \<Rightarrow> d)"

record video_out =
  v_index :: jval
  v_codec :: string
  v_resolution :: string
  v_title :: string

record audio_out =
  a_index :: jval
  a_codec :: string
  a_language :: string
  a_channels :: jval
  a_title :: string

record subtitle_out =
  t_index :: jval
  t_codec :: string
  t_language :: string
  t_default :: jval
  t_forced :: jval
  t_sdh :: jval
  t_title :: string

text \<open>
  The six lists of the loop over the streams. The input lists keep the stream itself;
  the dictionaries built from it there are only printed.
\<close>

record buckets =
  video_streams_in :: "stream list"
  audio_streams_in :: "stream list"
  subtitle_streams_in :: "stream list"
  video_streams_out :: "video_out list"
  audio_streams_out :: "audio_out list"
  subtitle_streams_out :: "subtitle_out list"

definition sort_stream :: "options \<Rightarrow> buckets \<Rightarrow> stream \<Rightarrow> buckets" where
  "sort_stream args b s =
     (let codec_type = capitalize (get_or (s_codec_type s) ''Unknown'');
          codec_name = get_or (s_codec_name s) ''Unknown'';
          resolution = str_jval (get_or (s_width s) (JStr ''N/A'')) @ ''x''
                         @ str_jval (get_or (s_height s) (JStr ''N/A''));
          language0 = get_or (s_tag_language s) ''eng'';
          language = (if language0 = ''und'' then ''eng'' else language0);
          title = get_or (s_tag_title s) [];
          dflt = get_or (s_disp_default s) (JStr ''0'');
          forced = get_or (s_disp_forced s) (JStr ''0'');
          sdh = get_or (s_disp_hearing_impaired s) (JStr ''0'');
          newtitle_parts =
            [if language = ''eng'' then ''English'' else language]
            @ (if forced = JStr ''1'' \<or> contains ''forced'' (lower title) then [''Forced''] else [])
            @ (if sdh = JStr ''1'' \<or> contains ''sdh'' (lower title) then [''SDH''] else []);
          newtitle = join '' '' newtitle_parts;
          index = get_or (s_index s) (JStr ''N/A'')
      in if codec_type = ''Video'' then
           b\<lparr>video_streams_in := video_streams_in b @ [s],
             video_streams_out := video_streams_out b @
               [\<lparr>v_index = index,
                 v_codec = (if video_codec args \<noteq> VCopy then video_codec_str (video_codec args) else codec_name),
                 v_resolution = (if rescale_to_720 args then ''-2x720'' else resolution),
                 v_title = ''N/A''\<rparr>]\<rparr>
         else if codec_type = ''Audio'' then
           (let ins = audio_streams_in b @ [s]
            in if length ins = 1 \<or> language = ''eng'' then
                 b\<lparr>audio_streams_in := ins,
                   audio_streams_out := audio_streams_out b @
                     [\<lparr>a_index = index,
                       a_codec = (if audio_codec args \<noteq> ACopy then audio_codec_str (audio_codec args) else codec_name),
                       a_language = (if language \<noteq> ''N/A'' then language else ''eng''),
                       a_channels = get_or (s_channels s) (JStr ''N/A''),
                       a_title = newtitle\<rparr>]\<rparr>
               else b\<lparr>audio_streams_in := ins\<rparr>)
         else if codec_type = ''Subtitle'' then
           (let ins = subtitle_streams_in b @ [s]
            in if language = ''eng'' \<or> language = ''N/A'' then
                 b\<lparr>subtitle_streams_in := ins,
                   subtitle_streams_out := subtitle_streams_out b @
                     [\<lparr>t_index = index, t_codec = codec_name, t_language = language,
                       t_default = dflt,
                       t_forced = (if contains ''forced'' (lower title) then JInt 1 else forced),
                       t_sdh = (if contains ''sdh'' (lower title) then JInt 1 else sdh),
                       t_title = newtitle\<rparr>]\<rparr>
               else b\<lparr>subtitle_streams_in := ins\<rparr>)
         else b)"

definition sort_streams :: "options \<Rightarrow> stream list \<Rightarrow> buckets" where
  "sort_streams args streams =
     foldl (sort_stream args)
       \<lparr>video_streams_in = [], audio_streams_in = [], subtitle_streams_in = [],
        video_streams_out = [], audio_streams_out = [], subtitle_streams_out = []\<rparr> streams"

section \<open>movieconvert: the encoder command\<close>

text \<open>\<^verbatim>\<open>str(args.crf_value)\<close>.\<close>

definition str_crf :: "int option \<Rightarrow> string" where
  "str_crf crf = (case crf of Some v \<Rightarrow> str_int v | None \<Rightarrow> ''None'')"

definition video_settings :: "video_codec \<Rightarrow> int option \<Rightarrow> string list" where
  "video_settings vc crf =
     (case vc of
        VCopy \<Rightarrow> [''-c:v'', ''copy'']
      | Avc \<Rightarrow> [''-c:v'', ''libx264'', ''-profile:v'', ''high'', ''-preset'', ''slow'', ''-crf'', str_crf crf]
      | Hevc \<Rightarrow> [''-c:v'', ''libx265'', ''-preset'', ''slow'', ''-crf'', str_crf crf, ''-tag:v'', ''hvc1''])"

definition audio_settings :: "audio_codec \<Rightarrow> string list" where
  "audio_settings ac =
     (case ac of
        ACopy \<Rightarrow> [''-c:a'', ''copy'']
      | Aac \<Rightarrow> [''-c:a'', ''aac'']
      | Ac3 \<Rightarrow> [''-c:a'', ''ac3'']
      | Eac3 \<Rightarrow> [''-c:a'', ''eac3''])"

text \<open>
  The language and title of one audio stream. \<^verbatim>\<open>stream['index']-1\<close> raises a
  \<^verbatim>\<open>TypeError\<close> when the index is the string default.
\<close>

definition audio_metadata :: "audio_out \<Rightarrow> py_exception + string list" where
  "audio_metadata st =
     (if \<not> truthy_str (a_language st) \<and> \<not> truthy_str (a_title st) then Inr []
      else case a_index st of
             JStr x \<Rightarrow> Inl TypeError
           | JInt n \<Rightarrow>
               Inr ((if truthy_str (a_language st)
                     then [''-metadata:s:a:'' @ str_int (n - 1), ''language='' @ a_language st] else [])
                  @ (if truthy_str (a_title st)
                     then [''-metadata:s:a:'' @ str_int (n - 1), ''title='' @ a_title st] else [])))"

fun audio_metadata_all :: "audio_out list \<Rightarrow> py_exception + string list" where
  "audio_metadata_all [] = Inr []"
| "audio_metadata_all (st # rest) =
     (case audio_metadata st of
        Inl e \<Rightarrow> Inl e
      | Inr xs \<Rightarrow> (case audio_metadata_all rest of Inl e \<Rightarrow> Inl e | Inr ys \<Rightarrow> Inr (xs @ ys)))"

text \<open>
  The metadata of subtitle number \<open>i\<close> of the output, from its language, title and the
  truth values of its forced and SDH flags.
\<close>

definition subtitle_metadata :: "nat \<Rightarrow> string \<Rightarrow> string \<Rightarrow> bool \<Rightarrow> bool \<Rightarrow> string list" where
  "subtitle_metadata i language title is_forced is_sdh =
     (let disposition_parts = (if is_forced then [''+forced''] else [])
                              @ (if is_sdh then [''+hearing_impaired''] else []);
          disposition_str = concat disposition_parts
      in (if truthy_str language then [''-metadata:s:s:'' @ str_nat i, ''language='' @ language] else [])
       @ (if truthy_str title \<and> title \<noteq> ''N/A'' then [''-metadata:s:s:'' @ str_nat i, ''title='' @ title] else [])
       @ (if disposition_parts \<noteq> [] \<and> truthy_str disposition_str
          then [''-disposition:s:'' @ str_nat i, disposition_str] else []))"

definition build_cmd :: "options \<Rightarrow> int option \<Rightarrow> subfile list \<Rightarrow> buckets \<Rightarrow> string \<Rightarrow> py_exception + string list" where
  "build_cmd args crf subfiles_in b output_file =
     (let cmd1 =
            [''ffmpeg'', ''-i'', input args]
            @ (if subtitle args then concat (map (\<lambda>f. [''-f'', ''srt'', ''-i'', sf_filename f]) subfiles_in) else [])
            @ [''-map_metadata'', ''-1'', ''-map_chapters'', ''-1'']
            @ concat (map (\<lambda>st. [''-map'', ''0:'' @ str_jval (v_index st)]) (video_streams_out b))
            @ concat (map (\<lambda>st. [''-map'', ''0:'' @ str_jval (a_index st)]) (audio_streams_out b))
            @ (if subtitle args
               then concat (map (\<lambda>st. [''-map'', ''0:'' @ str_jval (t_index st)]) (subtitle_streams_out b)) else [])
            @ (if subtitle args
               then concat (map (\<lambda>f. [''-map'', str_nat (sf_index f) @ '':0'']) subfiles_in) else [])
            @ video_settings (video_codec args) crf
            @ (if rescale_to_720 args then [''-vf'', ''scale=-2:720''] else [])
            @ audio_settings (audio_codec args)
            @ (if audio_to_stereo args then [''-ac'', ''2''] else [])
            @ (if subtitle args then [''-c:s'', ''mov_text''] else []);
          starting_index = length (subtitle_streams_out b)
      in case audio_metadata_all (audio_streams_out b) of
           Inl e \<Rightarrow> Inl e
         | Inr audio_md \<Rightarrow>
             Inr (cmd1 @ audio_md
                  @ (if subtitle args
                     then concat (map (\<lambda>(i, st). subtitle_metadata i (t_language st) (t_title st)
                                          (truthy (t_forced st)) (truthy (t_sdh st)))
                                    (enumerate 0 (subtitle_streams_out b)))
                          @ concat (map (\<lambda>(j, f). subtitle_metadata (starting_index + j) (sf_language f) (sf_title f)
                                          (sf_forced f \<noteq> 0) (sf_sdh f \<noteq> 0))
                                    (enumerate 0 subfiles_in))
                     else [])
                  @ [output_file]))"

section \<open>movieconvert: the run\<close>

text \<open>
  What a run reads from outside: the regular files, the directory listings, the parsed
  output of the inspection process, the line the operator types (\<open>None\<close> at end of
  input), and the encoder, which maps its arguments and the files to its exit status
  and the files it leaves. Both external programs are taken to be installed.
  \<open>readable\<close> holds the paths that the process may open for reading; no line of the
  tool asks for it, \<^verbatim>\<open>os.path.isfile\<close> being its only test of the input.
\<close>

record world =
  files :: fs
  readable :: fs
  dirs :: "string \<Rightarrow> string list option"
  ffprobe :: probe
  stdin :: "string option"
  ffmpeg :: "string list \<Rightarrow> fs \<Rightarrow> int \<times> fs"

text \<open>
  What a run does, in order. \<open>Print\<close> carries the error and action messages;
  \<open>ShowStreams\<close> stands for the listing of the input and output streams,
  \<open>ReportEncoderFailure\<close> for the message printed when the encoder fails, and
  \<open>UsageError\<close> for the usage and error message of the argument parser. Blank lines
  are left out.
\<close>

datatype event =
  Print string | ShowStreams | ReportEncoderFailure int | UsageError
  | RunProbe "string list" | Prompt | RunEncoder "string list"
  | Remove string | Rename string string

text \<open>
  How the process ends: \<^verbatim>\<open>sys.exit(n)\<close> or a return from \<^verbatim>\<open>main\<close> (status 0), an
  exception that nothing catches (a traceback and status 1), or not at all.
\<close>

datatype status = Exited int | Raised py_exception | Diverged

record plan =
  p_output_file :: string
  p_video :: "video_out list"
  p_audio :: "audio_out list"
  p_subtitle :: "subtitle_out list"
  p_cmd :: "py_exception + string list"

record outcome =
  status :: status
  trace :: "event list"
  files_after :: fs
  planned :: "plan option"

definition halt :: "status \<Rightarrow> event list \<Rightarrow> fs \<Rightarrow> outcome" where
  "halt st evs fs = \<lparr>status = st, trace = evs, files_after = fs, planned = None\<rparr>"

definition after :: "event list \<Rightarrow> outcome \<Rightarrow> outcome" where
  "after evs r = r\<lparr>trace := evs @ trace r\<rparr>"

text \<open>The last loop of \<^verbatim>\<open>main\<close>: the subtitle files are removed.\<close>

fun remove_subfiles :: "subfile list \<Rightarrow> fs \<Rightarrow> event list \<times> fs" where
  "remove_subfiles [] fs = ([], fs)"
| "remove_subfiles (sf # rest) fs =
     (let subtitle_file = sf_filename sf
      in if truthy_str subtitle_file \<and> isfile fs subtitle_file
         then (let (evs, fs') = remove_subfiles rest (os_remove subtitle_file fs)
               in ([Print (''Deleting:  '' @ subtitle_file), Remove subtitle_file] @ evs, fs'))
         else remove_subfiles rest fs)"

text \<open>
  The code after a successful encoder run. \<^verbatim>\<open>counter\<close> is at least 1, so
  \<^verbatim>\<open>counter - 1\<close> is a natural number. \<^verbatim>\<open>os.rename\<close> of a missing file raises.
\<close>

definition cleanup :: "options \<Rightarrow> string \<Rightarrow> nat \<Rightarrow> subfile list \<Rightarrow> fs \<Rightarrow> outcome" where
  "cleanup args output_file counter subfiles_in fs =
     (if \<not> delete args then halt (Exited 0) [] fs
      else
        let input_file = input args;
            (ev1, fs1) =
              (if truthy_str input_file \<and> isfile fs input_file
               then ([Print (''Deleting:  '' @ input_file), Remove input_file], os_remove input_file fs)
               else ([], fs));
            base = fst (splitext input_file);
            (output_base, output_ext) = splitext output_file
        in if endswith output_base (''.'' @ str_nat (counter - 1))
              \<and> output_ext = ''.'' @ container_str (container args)
           then
             (let new_input_file = plain_name base (container args);
                  ev2 = [Print (''Renaming:  '' @ output_file @ '' -> '' @ new_input_file)]
              in if \<not> isfile fs1 output_file then halt (Raised FileNotFoundError) (ev1 @ ev2) fs1
                 else
                   let (ev3, fs3) = remove_subfiles subfiles_in (os_rename output_file new_input_file fs1)
                   in halt (Exited 0) (ev1 @ ev2 @ [Rename output_file new_input_file] @ ev3) fs3)
           else
             (let (ev3, fs3) = remove_subfiles subfiles_in fs1
              in halt (Exited 0) (ev1 @ ev3) fs3))"

text \<open>The encoder run and what follows it.\<close>

definition run_encoder :: "options \<Rightarrow> world \<Rightarrow> string list \<Rightarrow> string \<Rightarrow> nat \<Rightarrow> subfile list \<Rightarrow> outcome" where
  "run_encoder args w cmd output_file counter subfiles_in =
     (let (rc, fs1) = ffmpeg w cmd (files w)
      in if rc \<noteq> 0 then halt (Exited 1) [RunEncoder cmd, ReportEncoderFailure rc] fs1
         else after [RunEncoder cmd] (cleanup args output_file counter subfiles_in fs1))"

text \<open>The command is shown, the operator confirms, the encoder runs.\<close>

definition execute :: "options \<Rightarrow> world \<Rightarrow> string list \<Rightarrow> string \<Rightarrow> nat \<Rightarrow> subfile list \<Rightarrow> outcome" where
  "execute args w cmd output_file counter subfiles_in =
     after ([Print (CHR 0x0A # ''The command will be:''), Print (join '' '' cmd)]
            @ (if delete args then [Print ''The input file(s) will be deleted after conversion.''] else []))
       (if \<not> no_prompt args then
          after [Prompt]
            (case stdin w of
               None \<Rightarrow> halt (Raised EOFError) [] (files w)
             | Some line \<Rightarrow>
                 (let proceed = lower (strip line)
                  in if proceed \<noteq> ''y'' then halt (Exited 0) [Print ''Aborted.''] (files w)
                     else run_encoder args w cmd output_file counter subfiles_in))
        else run_encoder args w cmd output_file counter subfiles_in)"

text \<open>
  Lines 134 to 385 of \<^verbatim>\<open>main\<close>: the streams are sorted and shown, the command is
  built, and the run goes on with it. An exception while the command is built ends the
  process after the streams were shown.
\<close>

definition convert :: "options \<Rightarrow> int option \<Rightarrow> world \<Rightarrow> string \<Rightarrow> nat \<Rightarrow> subfile list \<Rightarrow> stream list \<Rightarrow> outcome" where
  "convert args crf_value w output_file counter subfiles_in streams =
     (let b = sort_streams args streams;
          built = build_cmd args crf_value subfiles_in b output_file;
          p = \<lparr>p_output_file = output_file, p_video = video_streams_out b,
               p_audio = audio_streams_out b, p_subtitle = subtitle_streams_out b,
               p_cmd = built\<rparr>
      in (after [ShowStreams]
            (case built of
               Inl e \<Rightarrow> halt (Raised e) [] (files w)
             | Inr cmd \<Rightarrow> execute args w cmd output_file counter subfiles_in))
         \<lparr>planned := Some p\<rparr>)"

text \<open>
  Lines 56 to 132 of \<^verbatim>\<open>main\<close>, then the rest. The variable \<^verbatim>\<open>subfile\<close> of lines 72
  to 82 is never read and is left out. When the inspection output cannot be used,
  \<^verbatim>\<open>main\<close> returns a pair that its caller drops, so the process ends with status 0.
\<close>

definition main_from_input :: "options \<Rightarrow> int option \<Rightarrow> world \<Rightarrow> outcome" where
  "main_from_input args crf_value w =
     (let input_file = input args
      in if \<not> isfile (files w) input_file
         then halt (Exited 1) [Print (''Error: Cannot read file '' @ [CHR 0x27] @ input_file @ [CHR 0x27])] (files w)
         else
           let base = fst (splitext input_file)
           in case choose_output (files w) base (container args) of
                None \<Rightarrow> halt Diverged [] (files w)
              | Some (output_file, counter) \<Rightarrow>
                  (let directory = (if truthy_str (dirname input_file) then dirname input_file else ''.'');
                       base_name = fst (splitext (basename input_file))
                   in (case os_listdir (dirs w) directory of
                         Inl e \<Rightarrow> halt (Raised e) [] (files w)
                       | Inr listing \<Rightarrow>
                           (let subfiles_in = scan_subfiles directory base_name 1 listing;
                                probe_cmd = [''ffprobe'', ''-v'', ''error'', ''-show_streams'', ''-of'', ''json'', input_file]
                            in (case ffprobe w of
                                  BadJSON \<Rightarrow> halt (Exited 0) [RunProbe probe_cmd] (files w)
                                | NoStreamsKey \<Rightarrow> halt (Exited 0) [RunProbe probe_cmd] (files w)
                                | Streams streams \<Rightarrow>
                                    after [RunProbe probe_cmd]
                                      (convert args crf_value w output_file counter subfiles_in streams))))))"

text \<open>
  \<^verbatim>\<open>main()\<close> from line 46 on, with the namespace that \<^verbatim>\<open>parse_args\<close> returned: the
  CRF value gets its default or is checked (lines 46 to 54).
\<close>

definition main :: "options \<Rightarrow> int option \<Rightarrow> world \<Rightarrow> outcome" where
  "main args crf_arg w =
     (case crf_arg of
        None \<Rightarrow>
          main_from_input args
            (case video_codec args of Avc \<Rightarrow> Some 20 | Hevc \<Rightarrow> Some 24 | VCopy \<Rightarrow> None) w
      | Some v \<Rightarrow>
          if v < 0 \<or> v > 51
          then halt (Exited 1) [Print ''Error: CRF value must be between 0 and 51.''] (files w)
          else main_from_input args (Some v) w)"

text \<open>
  The whole of \<^verbatim>\<open>main()\<close>: \<^verbatim>\<open>parse_args\<close> with \<^verbatim>\<open>crf_range\<close> (line 44), then the lines
  after it. \<open>crf_text\<close> is the text given to \<^verbatim>\<open>--crf-value\<close>, if any.
\<close>

definition movieconvert :: "(string \<Rightarrow> int option) \<Rightarrow> options \<Rightarrow> string option \<Rightarrow> world \<Rightarrow> outcome" where
  "movieconvert int_of args crf_text w =
     (case parse_crf_value int_of crf_text of
        Inl st \<Rightarrow> halt (Exited st) [UsageError] (files w)
      | Inr crf_arg \<Rightarrow> main args crf_arg w)"

section \<open>ffmpegfe: streams of the input\<close>

text \<open>
  \<^verbatim>\<open>get_streams\<close> returns three lists, or on an unusable inspection output a pair of an
  empty list and a message. \<^verbatim>\<open>main\<close> unpacks the result into three variables, which
  raises a \<^verbatim>\<open>ValueError\<close> on the pair. The three lists keep the stream itself, not
  the dictionary made from it for display.
\<close>

datatype fe_streams =
  Pair "stream list" string
  | Triple "stream list" "stream list" "stream list"

definition fe_kind :: "stream \<Rightarrow> string" where
  "fe_kind s = capitalize (get_or (s_codec_type s) ''Unknown'')"

definition get_streams :: "probe \<Rightarrow> fe_streams" where
  "get_streams pr =
     (case pr of
        BadJSON \<Rightarrow> Pair [] ''Error: Could not retrieve stream information.''
      | NoStreamsKey \<Rightarrow> Pair [] ''Error: Could not retrieve stream information.''
      | Streams streams \<Rightarrow>
          Triple (filter (\<lambda>s. fe_kind s = ''Video'') streams)
                 (filter (\<lambda>s. fe_kind s = ''Audio'') streams)
                 (filter (\<lambda>s. fe_kind s = ''Subtitle'') streams))"

text \<open>
  The start of \<^verbatim>\<open>main\<close> of the interactive tool, up to the unpacking: what is printed
  and how the process ends there, \<open>None\<close> when it goes on to the terminal interface.
\<close>

definition fe_start :: "(string \<Rightarrow> string list option) \<Rightarrow> probe \<Rightarrow> string \<Rightarrow> (string list \<times> status) option" where
  "fe_start ds pr file_path =
     (case get_srt_filenames ds file_path of
        Inl e \<Rightarrow> Some ([], Raised e)
      | Inr srt_files \<Rightarrow>
          (case get_streams pr of
             Pair x msg \<Rightarrow> Some ([], Raised ValueError)
           | Triple video_streams audio_streams subtitle_streams \<Rightarrow> None))"

section \<open>The naming convention of subtitle files\<close>






section \<open>Kinds of events\<close>

fun is_print :: "event \<Rightarrow> bool" where
  "is_print (Print m) = True"
| "is_print e = False"

fun is_probe_run :: "event \<Rightarrow> bool" where
  "is_probe_run (RunProbe cmd) = True"
| "is_probe_run e = False"

fun is_encoder_run :: "event \<Rightarrow> bool" where
  "is_encoder_run (RunEncoder cmd) = True"
| "is_encoder_run e = False"

fun is_file_change :: "event \<Rightarrow> bool" where
  "is_file_change (Remove p) = True"
| "is_file_change (Rename p q) = True"
| "is_file_change e = False"

section \<open>A sample run\<close>

text \<open>
  A film with one video and one audio stream in the directory \<^verbatim>\<open>videos\<close>, with one
  subtitle file beside it; the encoder succeeds and leaves its last argument, the
  output, as a new file.
\<close>

definition demo_video :: stream where
  "demo_video =
     \<lparr>s_index = Some (JInt 0), s_codec_type = Some ''video'', s_codec_name = Some ''h264'',
      s_width = Some (JInt 1920), s_height = Some (JInt 1080), s_channels = None,
      s_tag_language = None, s_tag_title = None, s_disp_default = Some (JInt 1),
      s_disp_forced = Some (JInt 0), s_disp_hearing_impaired = Some (JInt 0)\<rparr>"

definition demo_audio :: stream where
  "demo_audio =
     \<lparr>s_index = Some (JInt 1), s_codec_type = Some ''audio'', s_codec_name = Some ''ac3'',
      s_width = None, s_height = None, s_channels = Some (JInt 6),
      s_tag_language = Some ''eng'', s_tag_title = None, s_disp_default = Some (JInt 1),
      s_disp_forced = Some (JInt 0), s_disp_hearing_impaired = Some (JInt 0)\<rparr>"

text \<open>What \<^verbatim>\<open>int\<close> makes of the texts used below.\<close>

definition demo_int :: "string \<Rightarrow> int option" where
  "demo_int v =
     (if v = ''23'' then Some 23 else if v = ''51'' then Some 51
      else if v = ''52'' then Some 52 else None)"

definition demo_options :: options where
  "demo_options =
     \<lparr>input = ''videos/movie.mkv'', container = Mp4, video_codec = Hevc, rescale_to_720 = False,
      audio_codec = Eac3, audio_to_stereo = False, subtitle = True, delete = False,
      no_prompt = False, verbose = False\<rparr>"

definition demo_world :: world where
  "demo_world =
     \<lparr>files = [''videos/movie.mkv'', ''videos/movie.srt''],
      readable = [''videos/movie.mkv'', ''videos/movie.srt''],
      dirs = (\<lambda>d. if d = ''videos'' then Some [''movie.mkv'', ''movie.srt''] else None),
      ffprobe = Streams [demo_video, demo_audio],
      stdin = Some ''n'',
      ffmpeg = (\<lambda>cmd fs. (0, last cmd # fs))\<rparr>"

section \<open>The output file name is the first free candidate\<close>

lemma digit_char_inj: "a < 10 \<Longrightarrow> b < 10 \<Longrightarrow> digit_char a = digit_char b \<Longrightarrow> a = b"
proof -
  assume a: "a < 10" and b: "b < 10" and eq: "digit_char a = digit_char b"
  have d: "distinct ''0123456789''" by simp
  have "length ''0123456789'' = 10" by simp
  with a b eq d show ?thesis
    unfolding digit_char_def by (metis nth_eq_iff_index_eq)
qed

lemma str_nat_nonempty: "str_nat n \<noteq> []"
  by (subst str_nat.simps) simp

lemma str_nat_inj: "str_nat n = str_nat m \<Longrightarrow> n = m"
proof (induction n arbitrary: m rule: str_nat.induct)
  case (1 n)
  show ?case
  proof (cases "n < 10")
    case small_n: True
    show ?thesis
    proof (cases "m < 10")
      case True
      with small_n "1.prems" show ?thesis
        by (simp add: str_nat.simps digit_char_inj)
    next
      case False
      with small_n "1.prems" str_nat_nonempty [of "m div 10"] show ?thesis
        by (simp add: str_nat.simps [of n] str_nat.simps [of m])
    qed
  next
    case big_n: False
    show ?thesis
    proof (cases "m < 10")
      case True
      with big_n "1.prems" str_nat_nonempty [of "n div 10"] show ?thesis
        by (simp add: str_nat.simps [of n] str_nat.simps [of m])
    next
      case False
      with big_n "1.prems" have eqs: "str_nat (n div 10) = str_nat (m div 10)"
        "digit_char (n mod 10) = digit_char (m mod 10)"
        by (simp_all add: str_nat.simps [of n] str_nat.simps [of m])
      from "1.IH" [OF big_n eqs(1)] have "n div 10 = m div 10" .
      moreover from eqs(2) have "n mod 10 = m mod 10"
        by (intro digit_char_inj) simp_all
      ultimately show ?thesis
        by (metis div_mult_mod_eq)
    qed
  qed
qed

lemma candidate_inj: "candidate base c j = candidate base c k \<Longrightarrow> j = k"
proof -
  assume eq: "candidate base c j = candidate base c k"
  have zero: False if "candidate base c 0 = candidate base c i" "i \<noteq> 0" for i
  proof -
    from that have "length (container_str c) = length (str_nat i) + 1 + length (container_str c)"
      by (simp add: candidate_def plain_name_def numbered_name_def)
    then show False by simp
  qed
  show ?thesis
  proof (cases "j = 0 \<or> k = 0")
    case True
    with eq zero show ?thesis by metis
  next
    case False
    with eq have "str_nat j = str_nat k"
      by (simp add: candidate_def numbered_name_def)
    then show ?thesis by (rule str_nat_inj)
  qed
qed

lemma candidates_bounded: "\<exists>B. \<forall>j\<ge>B. candidate base c j \<notin> set fs"
proof -
  have "inj (candidate base c)"
    by (rule injI) (rule candidate_inj)
  then have "finite (candidate base c -` set fs)"
    by (intro finite_vimageI) simp_all
  then obtain B where "\<forall>j \<in> candidate base c -` set fs. j < B"
    using finite_nat_set_iff_bounded by blast
  then have "\<forall>j\<ge>B. candidate base c j \<notin> set fs"
    by (metis not_le vimageI)
  then show ?thesis ..
qed

lemma find_free_from:
  "\<forall>j\<ge>B. candidate base c j \<notin> set fs \<Longrightarrow>
   \<exists>m\<ge>k. find_free fs base c (candidate base c k) (Suc k) = Some (candidate base c m, Suc m)
        \<and> \<not> isfile fs (candidate base c m)
        \<and> (\<forall>j. k \<le> j \<and> j < m \<longrightarrow> isfile fs (candidate base c j))"
proof (induction "B - k" arbitrary: k rule: less_induct)
  case less
  show ?case
  proof (cases "isfile fs (candidate base c k)")
    case False
    then have "find_free fs base c (candidate base c k) (Suc k) = Some (candidate base c k, Suc k)"
      by (subst find_free.simps) simp
    with False show ?thesis by auto
  next
    case True
    with less.prems have "k < B"
      by (metis isfile_def not_le)
    then have "B - Suc k < B - k" by simp
    from less.hyps [OF this less.prems] obtain m where m: "m \<ge> Suc k"
      "find_free fs base c (candidate base c (Suc k)) (Suc (Suc k)) = Some (candidate base c m, Suc m)"
      "\<not> isfile fs (candidate base c m)"
      "\<forall>j. Suc k \<le> j \<and> j < m \<longrightarrow> isfile fs (candidate base c j)"
      by blast
    from True have "find_free fs base c (candidate base c k) (Suc k)
        = find_free fs base c (candidate base c (Suc k)) (Suc (Suc k))"
      by (subst find_free.simps) (simp add: candidate_def)
    with m(2) have "find_free fs base c (candidate base c k) (Suc k) = Some (candidate base c m, Suc m)"
      by simp
    moreover have "\<forall>j. k \<le> j \<and> j < m \<longrightarrow> isfile fs (candidate base c j)"
      using True m(4) by (metis Suc_leI le_neq_implies_less)
    moreover have "m \<ge> k" using m(1) by simp
    ultimately show ?thesis using m(3) by blast
  qed
qed

text \<open>
  Claim C9. For every input path and every (finite) set of existing files, the loop that
  picks the output name ends, and the name it picks does not exist at that time: it is
  the first of base.container, base.1.container, base.2.container, ... that is not an
  existing file. The counter it leaves is one more than the position of that name.
\<close>

theorem choose_output_first_free:
  "\<exists>k. choose_output fs base c = Some (candidate base c k, Suc k)
       \<and> \<not> isfile fs (candidate base c k)
       \<and> (\<forall>j<k. isfile fs (candidate base c j))"
proof -
  obtain B where "\<forall>j\<ge>B. candidate base c j \<notin> set fs"
    using candidates_bounded by blast
  from find_free_from [OF this, of 0] show ?thesis
    by (auto simp: choose_output_def candidate_def)
qed

text \<open>
  Claim C9, witness: with \<^verbatim>\<open>m.mp4\<close> and \<^verbatim>\<open>m.1.mp4\<close> present the tool picks
  \<^verbatim>\<open>m.2.mp4\<close>, and the two earlier candidates exist.
\<close>

theorem choose_output_first_free_witness:
  "choose_output [''m.mkv'', ''m.mp4'', ''m.1.mp4''] ''m'' Mp4 = Some (''m.2.mp4'', 3)
   \<and> \<not> isfile [''m.mkv'', ''m.mp4'', ''m.1.mp4''] ''m.2.mp4''
   \<and> isfile [''m.mkv'', ''m.mp4'', ''m.1.mp4''] (candidate ''m'' Mp4 0)
   \<and> isfile [''m.mkv'', ''m.mp4'', ''m.1.mp4''] (candidate ''m'' Mp4 1)"
proof -
  let ?fs = "[''m.mkv'', ''m.mp4'', ''m.1.mp4'']"
  have c0: "candidate ''m'' Mp4 0 = ''m.mp4''" and c1: "candidate ''m'' Mp4 (Suc 0) = ''m.1.mp4''"
    and c2: "candidate ''m'' Mp4 2 = ''m.2.mp4''"
    by (simp_all add: candidate_def plain_name_def numbered_name_def str_nat.simps digit_char_def)
  from choose_output_first_free [of ?fs "''m''" Mp4] obtain k where k:
    "choose_output ?fs ''m'' Mp4 = Some (candidate ''m'' Mp4 k, Suc k)"
    "\<not> isfile ?fs (candidate ''m'' Mp4 k)" "\<forall>j<k. isfile ?fs (candidate ''m'' Mp4 j)"
    by blast
  have "\<not> isfile ?fs (candidate ''m'' Mp4 2)" by (simp add: c2 isfile_def)
  with k(3) have "k \<le> 2" by (meson not_le)
  moreover have "k \<noteq> 0"
  proof
    assume "k = 0"
    with k(2) show False by (simp add: c0 isfile_def)
  qed
  moreover have "k \<noteq> 1"
  proof
    assume "k = 1"
    with k(2) show False by (simp add: c1 isfile_def)
  qed
  ultimately have "k = 2" by simp
  with k show ?thesis by (simp add: c0 c1 c2 isfile_def)
qed

section \<open>The CRF option\<close>

text \<open>
  What \<^verbatim>\<open>crf_range\<close> does with a text that \<^verbatim>\<open>int\<close> reads as \<open>i\<close>: within 0..51 the
  value goes on unchanged, outside the process ends in \<^verbatim>\<open>parse_args\<close> with the parser's
  usage error and status 2.
\<close>

lemma crf_range_cases:
  "int_of v = Some i \<Longrightarrow>
   (0 \<le> i \<and> i \<le> 51 \<longrightarrow>
      crf_range int_of v = Inr i \<and> movieconvert int_of args (Some v) w = main args (Some i) w)
   \<and> (i < 0 \<or> 51 < i \<longrightarrow>
      crf_range int_of v = Inl ArgumentTypeError
      \<and> movieconvert int_of args (Some v) w = halt (Exited 2) [UsageError] (files w))"
  by (auto simp: crf_range_def movieconvert_def parse_crf_value_def argparse_error_status_def)

lemma parse_crf_value_range:
  "parse_crf_value int_of crf_text = Inr c \<Longrightarrow> c = None \<or> (\<exists>i. c = Some i \<and> 0 \<le> i \<and> i \<le> 51)"
  by (auto simp: parse_crf_value_def crf_range_def split: option.splits sum.splits if_splits)

text \<open>
  The check of lines 52 to 54 never fires on a value that came through \<^verbatim>\<open>parse_args\<close>.
\<close>

lemma crf_check_unreachable:
  "parse_crf_value int_of crf_text = Inr c \<Longrightarrow>
   main args c w =
     main_from_input args
       (case c of
          None \<Rightarrow> (case video_codec args of Avc \<Rightarrow> Some 20 | Hevc \<Rightarrow> Some 24 | VCopy \<Rightarrow> None)
        | Some v \<Rightarrow> Some v) w"
  using parse_crf_value_range [of int_of crf_text c] by (auto simp: main_def)

text \<open>
  Claim C1 says that an out-of-range CRF value ends the process with code 1, which is
  also what the check of lines 52 to 54 does with such a value: it prints the error and
  calls \<^verbatim>\<open>sys.exit(1)\<close>. With the text 52 on the command line that check is never
  reached: the type function \<^verbatim>\<open>crf_range\<close> rejects the value inside \<^verbatim>\<open>parse_args\<close>
  (line 44), whose error path ends the process with status 2.
\<close>

theorem crf_out_of_range_exit_status:
  "demo_int ''52'' = Some 52
   \<and> crf_range demo_int ''52'' = Inl ArgumentTypeError
   \<and> movieconvert demo_int demo_options (Some ''52'') demo_world
       = halt (Exited 2) [UsageError] (files demo_world)
   \<and> status (movieconvert demo_int demo_options (Some ''52'') demo_world) \<noteq> Exited 1
   \<and> main demo_options (Some 52) demo_world
       = halt (Exited 1) [Print ''Error: CRF value must be between 0 and 51.''] (files demo_world)"
  by code_simp

section \<open>Subtitle files of the interactive tool\<close>

text \<open>
  Claim C10 says that \<^verbatim>\<open>get_srt_filenames\<close> returns a non-empty list, the placeholder
  at least, for every input path and never an error. For a path without a directory
  part, \<^verbatim>\<open>os.path.dirname\<close> is empty and \<^verbatim>\<open>os.listdir('')\<close> raises, whatever the
  directories hold. The batch tool lists \<^verbatim>\<open>"."\<close> in that case.
\<close>

theorem get_srt_filenames_bare_name:
  "get_srt_filenames ds ''movie.mkv'' = Inl FileNotFoundError"
  by (simp add: get_srt_filenames_def dirname_def os_listdir_def)

text \<open>
  Where the directory of the input can be listed, the result is a list and is not
  empty.
\<close>

lemma get_srt_filenames_listed:
  "os_listdir ds (dirname p) = Inr l \<Longrightarrow> \<exists>xs. get_srt_filenames ds p = Inr xs \<and> xs \<noteq> []"
  by (simp add: get_srt_filenames_def Let_def)

section \<open>Unusable inspection output\<close>

text \<open>
  Claim C4 says that an unusable inspection output is reported to the operator. In the
  batch tool \<^verbatim>\<open>main\<close> returns the message to a caller that drops it: nothing is printed
  and the process ends with status 0. In the interactive tool \<^verbatim>\<open>get_streams\<close> returns a
  pair, and unpacking it into three variables raises a \<^verbatim>\<open>ValueError\<close>.
\<close>

theorem unusable_probe_not_reported:
  "main demo_options None (demo_world\<lparr>ffprobe := BadJSON\<rparr>)
     = \<lparr>status = Exited 0,
        trace = [RunProbe [''ffprobe'', ''-v'', ''error'', ''-show_streams'', ''-of'', ''json'', ''videos/movie.mkv'']],
        files_after = [''videos/movie.mkv'', ''videos/movie.srt''],
        planned = None\<rparr>
   \<and> fe_start (dirs demo_world) BadJSON ''videos/movie.mkv'' = Some ([], Raised ValueError)"
  by code_simp

section \<open>Deletion after a successful conversion\<close>

text \<open>
  Claim C8 says that with the delete option the tool deletes precisely the subtitle
  files that were encoder inputs. With subtitles switched off (\<^verbatim>\<open>-s\<close>) no subtitle file
  is an encoder input, and the matching file is deleted all the same.
\<close>

theorem unused_subtitle_file_deleted:
  "trace (main (demo_options\<lparr>subtitle := False, delete := True, no_prompt := True\<rparr>) None demo_world)
     = [RunProbe [''ffprobe'', ''-v'', ''error'', ''-show_streams'', ''-of'', ''json'', ''videos/movie.mkv''],
        ShowStreams,
        Print (CHR 0x0A # ''The command will be:''),
        Print ''ffmpeg -i videos/movie.mkv -map_metadata -1 -map_chapters -1 -map 0:0 -map 0:1 -c:v libx265 -preset slow -crf 24 -tag:v hvc1 -c:a eac3 -metadata:s:a:0 language=eng -metadata:s:a:0 title=English videos/movie.mp4'',
        Print ''The input file(s) will be deleted after conversion.'',
        RunEncoder [''ffmpeg'', ''-i'', ''videos/movie.mkv'', ''-map_metadata'', ''-1'',
          ''-map_chapters'', ''-1'', ''-map'', ''0:0'', ''-map'', ''0:1'', ''-c:v'', ''libx265'',
          ''-preset'', ''slow'', ''-crf'', ''24'', ''-tag:v'', ''hvc1'', ''-c:a'', ''eac3'',
          ''-metadata:s:a:0'', ''language=eng'', ''-metadata:s:a:0'', ''title=English'',
          ''videos/movie.mp4''],
        Print ''Deleting:  videos/movie.mkv'', Remove ''videos/movie.mkv'',
        Print ''Deleting:  videos/movie.srt'', Remove ''videos/movie.srt'']
   \<and> files_after (main (demo_options\<lparr>subtitle := False, delete := True, no_prompt := True\<rparr>) None demo_world)
     = [''videos/movie.mp4'']"
  by code_simp

section \<open>Runs of the batch tool\<close>

lemma halt_simps:
  "status (halt st evs fs) = st" "trace (halt st evs fs) = evs"
  "files_after (halt st evs fs) = fs" "planned (halt st evs fs) = None"
  by (simp_all add: halt_def)

lemma after_simps:
  "status (after evs r) = status r" "trace (after evs r) = evs @ trace r"
  "files_after (after evs r) = files_after r" "planned (after evs r) = planned r"
  by (simp_all add: after_def)

lemma remove_subfiles_events:
  "remove_subfiles subs fs = (evs, fs') \<Longrightarrow> e \<in> set evs \<Longrightarrow> \<not> is_encoder_run e \<and> \<not> is_probe_run e"
proof (induction subs arbitrary: fs evs fs')
  case Nil
  then show ?case by simp
next
  case (Cons sf rest)
  show ?case
  proof (cases "truthy_str (sf_filename sf) \<and> isfile fs (sf_filename sf)")
    case False
    with Cons.prems have "remove_subfiles rest fs = (evs, fs')"
      by (auto simp: Let_def)
    from Cons.IH [OF this Cons.prems(2)] show ?thesis .
  next
    case True
    obtain evs1 fs1 where rest: "remove_subfiles rest (os_remove (sf_filename sf) fs) = (evs1, fs1)"
      by (cases "remove_subfiles rest (os_remove (sf_filename sf) fs)")
    with True Cons.prems(1)
    have "evs = [Print (''Deleting:  '' @ sf_filename sf), Remove (sf_filename sf)] @ evs1"
      by (auto simp: Let_def)
    with Cons.prems(2) Cons.IH [OF rest] show ?thesis by auto
  qed
qed

lemma cleanup_events:
  "e \<in> set (trace (cleanup args output_file counter subs fs)) \<Longrightarrow> \<not> is_encoder_run e"
  by (auto simp: cleanup_def halt_simps Let_def split: if_splits prod.splits
           dest: remove_subfiles_events)

lemma run_encoder_failed:
  "fst (ffmpeg w cmd (files w)) \<noteq> 0 \<Longrightarrow>
   run_encoder args w cmd output_file counter subs
     = halt (Exited 1) [RunEncoder cmd, ReportEncoderFailure (fst (ffmpeg w cmd (files w)))]
         (snd (ffmpeg w cmd (files w)))"
  by (cases "ffmpeg w cmd (files w)") (simp add: run_encoder_def)

lemma run_encoder_events:
  "RunEncoder c \<in> set (trace (run_encoder args w cmd output_file counter subs)) \<Longrightarrow> c = cmd"
  by (cases "ffmpeg w cmd (files w)")
     (auto simp: run_encoder_def halt_simps after_simps split: if_splits dest: cleanup_events)

lemma execute_declined:
  "\<not> no_prompt args \<Longrightarrow> stdin w = Some line \<Longrightarrow> lower (strip line) \<noteq> ''y'' \<Longrightarrow>
   execute args w cmd output_file counter subs
     = halt (Exited 0)
         ([Print (CHR 0x0A # ''The command will be:''), Print (join '' '' cmd)]
          @ (if delete args then [Print ''The input file(s) will be deleted after conversion.''] else [])
          @ [Prompt, Print ''Aborted.''])
         (files w)"
  by (simp add: execute_def Let_def halt_def after_def)

lemma execute_reaches_encoder:
  "RunEncoder c \<in> set (trace (execute args w cmd output_file counter subs)) \<Longrightarrow>
   c = cmd \<and> (\<exists>pre. (\<forall>e\<in>set pre. \<not> is_encoder_run e \<and> \<not> is_file_change e)
              \<and> execute args w cmd output_file counter subs
                  = after pre (run_encoder args w cmd output_file counter subs))"
proof -
  assume run: "RunEncoder c \<in> set (trace (execute args w cmd output_file counter subs))"
  let ?shown = "[Print (CHR 0x0A # ''The command will be:''), Print (join '' '' cmd)]
            @ (if delete args then [Print ''The input file(s) will be deleted after conversion.''] else [])"
  let ?enc = "run_encoder args w cmd output_file counter subs"
  show ?thesis
  proof (cases "no_prompt args")
    case True
    then have eq: "execute args w cmd output_file counter subs = after ?shown ?enc"
      by (simp add: execute_def)
    with run have "RunEncoder c \<in> set (trace ?enc)"
      by (auto simp: after_simps split: if_splits)
    then have "c = cmd" by (rule run_encoder_events)
    moreover have "\<forall>e\<in>set ?shown. \<not> is_encoder_run e \<and> \<not> is_file_change e" by simp
    ultimately show ?thesis using eq by blast
  next
    case False
    show ?thesis
    proof (cases "stdin w")
      case None
      with False run show ?thesis
        by (auto simp: execute_def after_simps halt_simps split: if_splits)
    next
      case (Some line)
      show ?thesis
      proof (cases "lower (strip line) = ''y''")
        case declined: False
        from run show ?thesis
          unfolding execute_declined [OF False Some declined]
          by (auto simp: halt_simps split: if_splits)
      next
        case True
        with False Some have eq: "execute args w cmd output_file counter subs = after (?shown @ [Prompt]) ?enc"
          by (simp add: execute_def after_def)
        with run have "RunEncoder c \<in> set (trace ?enc)"
          by (auto simp: after_simps split: if_splits)
        then have "c = cmd" by (rule run_encoder_events)
        moreover have "\<forall>e\<in>set (?shown @ [Prompt]). \<not> is_encoder_run e \<and> \<not> is_file_change e" by simp
        ultimately show ?thesis using eq by blast
      qed
    qed
  qed
qed

lemma main_from_input_cases:
  "(\<exists>st evs. main_from_input args crf_value w = halt st evs (files w)
        \<and> (\<forall>e\<in>set evs. is_print e \<or> is_probe_run e))
   \<or> (\<exists>output_file counter subs streams.
        isfile (files w) (input args) \<and> ffprobe w = Streams streams \<and>
        main_from_input args crf_value w =
          after [RunProbe [''ffprobe'', ''-v'', ''error'', ''-show_streams'', ''-of'', ''json'', input args]]
            (convert args crf_value w output_file counter subs streams))"
proof (cases "isfile (files w) (input args)")
  case False
  then have "main_from_input args crf_value w = halt (Exited 1)
      [Print (''Error: Cannot read file '' @ [CHR 0x27] @ input args @ [CHR 0x27])] (files w)"
    by (simp add: main_from_input_def Let_def)
  then show ?thesis by force
next
  case is_file: True
  show ?thesis
  proof (cases "choose_output (files w) (fst (splitext (input args))) (container args)")
    case None
    with is_file have "main_from_input args crf_value w = halt Diverged [] (files w)"
      by (simp add: main_from_input_def Let_def)
    then show ?thesis by force
  next
    case (Some oc)
    obtain output_file counter where oc: "oc = (output_file, counter)" by (cases oc)
    let ?d = "if truthy_str (dirname (input args)) then dirname (input args) else ''.''"
    show ?thesis
    proof (cases "os_listdir (dirs w) ?d")
      case (Inl e)
      with is_file Some oc have "main_from_input args crf_value w = halt (Raised e) [] (files w)"
        by (simp add: main_from_input_def Let_def)
      then show ?thesis by force
    next
      case (Inr listing)
      show ?thesis
      proof (cases "ffprobe w")
        case BadJSON
        with is_file Some oc Inr have "main_from_input args crf_value w = halt (Exited 0)
            [RunProbe [''ffprobe'', ''-v'', ''error'', ''-show_streams'', ''-of'', ''json'', input args]] (files w)"
          by (simp add: main_from_input_def Let_def)
        then show ?thesis by force
      next
        case NoStreamsKey
        with is_file Some oc Inr have "main_from_input args crf_value w = halt (Exited 0)
            [RunProbe [''ffprobe'', ''-v'', ''error'', ''-show_streams'', ''-of'', ''json'', input args]] (files w)"
          by (simp add: main_from_input_def Let_def)
        then show ?thesis by force
      next
        case (Streams streams)
        with is_file Some oc Inr have "\<exists>subs. main_from_input args crf_value w =
           after [RunProbe [''ffprobe'', ''-v'', ''error'', ''-show_streams'', ''-of'', ''json'', input args]]
             (convert args crf_value w output_file counter subs streams)"
          by (auto simp: main_from_input_def Let_def)
        with is_file Streams show ?thesis by blast
      qed
    qed
  qed
qed

lemma main_cases:
  "(\<exists>st evs. main args crf w = halt st evs (files w)
        \<and> (\<forall>e\<in>set evs. is_print e \<or> is_probe_run e))
   \<or> (\<exists>crf_value output_file counter subs streams.
        isfile (files w) (input args) \<and> ffprobe w = Streams streams \<and>
        main args crf w =
          after [RunProbe [''ffprobe'', ''-v'', ''error'', ''-show_streams'', ''-of'', ''json'', input args]]
            (convert args crf_value w output_file counter subs streams))"
proof (cases crf)
  case None
  then show ?thesis
    using main_from_input_cases [of args _ w] by (simp add: main_def) blast
next
  case (Some v)
  show ?thesis
  proof (cases "v < 0 \<or> v > 51")
    case True
    with Some have "main args crf w = halt (Exited 1) [Print ''Error: CRF value must be between 0 and 51.''] (files w)"
      by (simp add: main_def)
    then show ?thesis by force
  next
    case False
    with Some show ?thesis
      using main_from_input_cases [of args "Some v" w] by (simp add: main_def) blast
  qed
qed

lemma movieconvert_cases:
  "(\<exists>st. movieconvert int_of args crf_text w = halt (Exited st) [UsageError] (files w))
   \<or> (\<exists>c. parse_crf_value int_of crf_text = Inr c \<and> movieconvert int_of args crf_text w = main args c w)"
  by (cases "parse_crf_value int_of crf_text") (auto simp: movieconvert_def)

lemma convert_reaches_encoder:
  "RunEncoder c \<in> set (trace (convert args crf_value w output_file counter subs streams)) \<Longrightarrow>
   \<exists>pre p. (\<forall>e\<in>set pre. \<not> is_encoder_run e \<and> \<not> is_file_change e)
     \<and> p_cmd p = Inr c
     \<and> convert args crf_value w output_file counter subs streams
         = (after pre (run_encoder args w c output_file counter subs))\<lparr>planned := Some p\<rparr>"
proof -
  assume run: "RunEncoder c \<in> set (trace (convert args crf_value w output_file counter subs streams))"
  let ?b = "sort_streams args streams"
  let ?built = "build_cmd args crf_value subs ?b output_file"
  let ?p = "\<lparr>p_output_file = output_file, p_video = video_streams_out ?b,
             p_audio = audio_streams_out ?b, p_subtitle = subtitle_streams_out ?b, p_cmd = ?built\<rparr>"
  show ?thesis
  proof (cases ?built)
    case (Inl e)
    with run show ?thesis
      by (simp add: convert_def Let_def after_simps halt_simps)
  next
    case (Inr cmd)
    then have conv: "convert args crf_value w output_file counter subs streams
        = (after [ShowStreams] (execute args w cmd output_file counter subs))\<lparr>planned := Some ?p\<rparr>"
      by (simp add: convert_def Let_def)
    with run have "RunEncoder c \<in> set (trace (execute args w cmd output_file counter subs))"
      by (simp add: after_simps)
    from execute_reaches_encoder [OF this] obtain pre where
      c: "c = cmd" and pre: "\<forall>e\<in>set pre. \<not> is_encoder_run e \<and> \<not> is_file_change e"
      and e: "execute args w cmd output_file counter subs
                = after pre (run_encoder args w cmd output_file counter subs)"
      by blast
    have "\<forall>e\<in>set (ShowStreams # pre). \<not> is_encoder_run e \<and> \<not> is_file_change e"
      using pre by simp
    moreover have "p_cmd ?p = Inr c" using Inr c by simp
    moreover have "convert args crf_value w output_file counter subs streams
        = (after (ShowStreams # pre) (run_encoder args w c output_file counter subs))\<lparr>planned := Some ?p\<rparr>"
      using conv e c by (simp add: after_def)
    ultimately show ?thesis by blast
  qed
qed


lemma convert_declined:
  assumes "\<not> no_prompt args" and "stdin w = Some line" and "lower (strip line) \<noteq> ''y''"
  shows "files_after (convert args crf_value w output_file counter subs streams) = files w"
    and "e \<in> set (trace (convert args crf_value w output_file counter subs streams))
           \<Longrightarrow> \<not> is_encoder_run e \<and> \<not> is_file_change e"
    and "Prompt \<in> set (trace (convert args crf_value w output_file counter subs streams))
           \<Longrightarrow> status (convert args crf_value w output_file counter subs streams) = Exited 0"
proof -
  let ?built = "build_cmd args crf_value subs (sort_streams args streams) output_file"
  let ?c = "convert args crf_value w output_file counter subs streams"
  have "files_after ?c = files w
      \<and> (e \<in> set (trace ?c) \<longrightarrow> \<not> is_encoder_run e \<and> \<not> is_file_change e)
      \<and> (Prompt \<in> set (trace ?c) \<longrightarrow> status ?c = Exited 0)"
  proof (cases ?built)
    case (Inl x)
    then show ?thesis
      by (auto simp: convert_def Let_def halt_simps after_simps)
  next
    case (Inr cmd)
    then show ?thesis
      by (auto simp: convert_def Let_def execute_declined [OF assms] halt_simps after_simps)
  qed
  then show "files_after ?c = files w"
    and "e \<in> set (trace ?c) \<Longrightarrow> \<not> is_encoder_run e \<and> \<not> is_file_change e"
    and "Prompt \<in> set (trace ?c) \<Longrightarrow> status ?c = Exited 0"
    by blast+
qed

lemma main_reaches_encoder:
  assumes "RunEncoder c \<in> set (trace (main args crf w))"
  shows "\<exists>pre output_file counter subs p.
     (\<forall>e\<in>set pre. \<not> is_encoder_run e \<and> \<not> is_file_change e)
     \<and> p_cmd p = Inr c
     \<and> main args crf w = (after pre (run_encoder args w c output_file counter subs))\<lparr>planned := Some p\<rparr>"
proof -
  from main_cases [of args crf w] show ?thesis
  proof
    assume "\<exists>st evs. main args crf w = halt st evs (files w) \<and> (\<forall>e\<in>set evs. is_print e \<or> is_probe_run e)"
    then obtain st evs where m: "main args crf w = halt st evs (files w)"
      and evs: "\<forall>e\<in>set evs. is_print e \<or> is_probe_run e" by blast
    from assms m have "RunEncoder c \<in> set evs" by (simp add: halt_simps)
    with evs have False by auto
    then show ?thesis ..
  next
    assume "\<exists>crf_value output_file counter subs streams.
        isfile (files w) (input args) \<and> ffprobe w = Streams streams \<and>
        main args crf w =
          after [RunProbe [''ffprobe'', ''-v'', ''error'', ''-show_streams'', ''-of'', ''json'', input args]]
            (convert args crf_value w output_file counter subs streams)"
    then obtain crf_value output_file counter subs streams where
      m: "main args crf w = after [RunProbe [''ffprobe'', ''-v'', ''error'', ''-show_streams'', ''-of'', ''json'', input args]]
            (convert args crf_value w output_file counter subs streams)"
      by blast
    with assms have "RunEncoder c \<in> set (trace (convert args crf_value w output_file counter subs streams))"
      by (simp add: after_simps)
    from convert_reaches_encoder [OF this] obtain pre p where
      pre: "\<forall>e\<in>set pre. \<not> is_encoder_run e \<and> \<not> is_file_change e" and p: "p_cmd p = Inr c"
      and conv: "convert args crf_value w output_file counter subs streams
           = (after pre (run_encoder args w c output_file counter subs))\<lparr>planned := Some p\<rparr>"
      by blast
    let ?pre = "RunProbe [''ffprobe'', ''-v'', ''error'', ''-show_streams'', ''-of'', ''json'', input args] # pre"
    have "\<forall>e\<in>set ?pre. \<not> is_encoder_run e \<and> \<not> is_file_change e"
      using pre by simp
    moreover have "main args crf w = (after ?pre (run_encoder args w c output_file counter subs))\<lparr>planned := Some p\<rparr>"
      using m conv by (simp add: after_def)
    ultimately show ?thesis using p by blast
  qed
qed

lemma movieconvert_reaches_encoder:
  assumes "RunEncoder c \<in> set (trace (movieconvert int_of args crf_text w))"
  shows "\<exists>pre output_file counter subs p.
     (\<forall>e\<in>set pre. \<not> is_encoder_run e \<and> \<not> is_file_change e)
     \<and> p_cmd p = Inr c
     \<and> movieconvert int_of args crf_text w
         = (after pre (run_encoder args w c output_file counter subs))\<lparr>planned := Some p\<rparr>"
proof -
  from movieconvert_cases [of int_of args crf_text w] show ?thesis
  proof
    assume "\<exists>st. movieconvert int_of args crf_text w = halt (Exited st) [UsageError] (files w)"
    with assms have False by (auto simp: halt_simps)
    then show ?thesis ..
  next
    assume "\<exists>c. parse_crf_value int_of crf_text = Inr c \<and> movieconvert int_of args crf_text w = main args c w"
    then obtain cv where "movieconvert int_of args crf_text w = main args cv w" by blast
    with assms main_reaches_encoder [of c args cv w] show ?thesis by simp
  qed
qed

text \<open>
  Claim C7, counterexample. The claim is about every path that does not name an
  existing readable file. The tool tests \<^verbatim>\<open>os.path.isfile\<close> only: an input that exists
  and cannot be read passes the test, the inspection process is run on it, and with
  its output unusable the run ends without a message and with status 0.
\<close>

theorem unreadable_input_is_probed:
  "isfile (files (demo_world\<lparr>readable := [], ffprobe := NoStreamsKey\<rparr>)) (input demo_options)
   \<and> input demo_options \<notin> set (readable (demo_world\<lparr>readable := [], ffprobe := NoStreamsKey\<rparr>))
   \<and> status (movieconvert demo_int demo_options None (demo_world\<lparr>readable := [], ffprobe := NoStreamsKey\<rparr>))
       = Exited 0
   \<and> trace (movieconvert demo_int demo_options None (demo_world\<lparr>readable := [], ffprobe := NoStreamsKey\<rparr>))
       = [RunProbe [''ffprobe'', ''-v'', ''error'', ''-show_streams'', ''-of'', ''json'', ''videos/movie.mkv'']]"
  by code_simp

text \<open>
  Claim C7, as amended. When the arguments parse and the input path is not an existing
  regular file, the batch tool prints the error \<^verbatim>\<open>Error: Cannot read file '...'\<close> and
  exits with code 1. That message is the whole trace: neither the inspection process
  nor the encoder is run, and no file is touched. Whether an existing file can be read
  is not tested.
\<close>

theorem missing_input_exits_1:
  assumes "parse_crf_value int_of crf_text = Inr c" and "\<not> isfile (files w) (input args)"
  shows "status (movieconvert int_of args crf_text w) = Exited 1
         \<and> trace (movieconvert int_of args crf_text w)
             = [Print (''Error: Cannot read file '' @ [CHR 0x27] @ input args @ [CHR 0x27])]
         \<and> files_after (movieconvert int_of args crf_text w) = files w"
proof -
  have mfi: "main_from_input args cv w = halt (Exited 1)
      [Print (''Error: Cannot read file '' @ [CHR 0x27] @ input args @ [CHR 0x27])] (files w)" for cv
    using assms(2) by (simp add: main_from_input_def Let_def)
  from parse_crf_value_range [OF assms(1)] have "main args c w = halt (Exited 1)
      [Print (''Error: Cannot read file '' @ [CHR 0x27] @ input args @ [CHR 0x27])] (files w)"
    by (auto simp: main_def mfi)
  with assms(1) show ?thesis
    by (simp add: movieconvert_def halt_simps)
qed

text \<open>Claim C7, witness: a valid CRF text and a world without files.\<close>

theorem missing_input_exits_1_witness:
  "parse_crf_value demo_int (Some ''23'') = Inr (Some 23)
   \<and> \<not> isfile (files (demo_world\<lparr>files := []\<rparr>)) (input demo_options)
   \<and> status (movieconvert demo_int demo_options (Some ''23'') (demo_world\<lparr>files := []\<rparr>)) = Exited 1
   \<and> trace (movieconvert demo_int demo_options (Some ''23'') (demo_world\<lparr>files := []\<rparr>))
        = [Print (''Error: Cannot read file '' @ [CHR 0x27] @ ''videos/movie.mkv'' @ [CHR 0x27])]
   \<and> files_after (movieconvert demo_int demo_options (Some ''23'') (demo_world\<lparr>files := []\<rparr>)) = []"
proof -
  have h1: "parse_crf_value demo_int (Some ''23'') = Inr (Some 23)" by code_simp
  have h2: "\<not> isfile (files (demo_world\<lparr>files := []\<rparr>)) (input demo_options)"
    by (simp add: isfile_def)
  from missing_input_exits_1 [OF h1 h2] h1 h2 show ?thesis
    by (simp add: demo_options_def)
qed

text \<open>
  Claim C5. When the no-prompt option is not set and the line the operator types,
  stripped and lowercased, is not \<^verbatim>\<open>y\<close>, a run that reads that line exits with code 0;
  and the run, wherever it ends, neither runs the encoder nor removes or renames a file,
  and leaves the files as they were.
\<close>

theorem declined_confirmation_stops:
  assumes "\<not> no_prompt args" and "stdin w = Some line" and "lower (strip line) \<noteq> ''y''"
  shows "(Prompt \<in> set (trace (movieconvert int_of args crf_text w))
            \<longrightarrow> status (movieconvert int_of args crf_text w) = Exited 0)
         \<and> (\<forall>e\<in>set (trace (movieconvert int_of args crf_text w)). \<not> is_encoder_run e \<and> \<not> is_file_change e)
         \<and> files_after (movieconvert int_of args crf_text w) = files w"
proof -
  let ?r = "movieconvert int_of args crf_text w"
  from movieconvert_cases [of int_of args crf_text w] show ?thesis
  proof
    assume "\<exists>st. ?r = halt (Exited st) [UsageError] (files w)"
    then show ?thesis by (auto simp: halt_simps)
  next
    assume "\<exists>c. parse_crf_value int_of crf_text = Inr c \<and> ?r = main args c w"
    then obtain c where r: "?r = main args c w" by blast
    from main_cases [of args c w] show ?thesis
    proof
      assume "\<exists>st evs. main args c w = halt st evs (files w) \<and> (\<forall>e\<in>set evs. is_print e \<or> is_probe_run e)"
      then obtain st evs where m: "main args c w = halt st evs (files w)"
        and evs: "\<forall>e\<in>set evs. is_print e \<or> is_probe_run e" by blast
      have "\<not> is_encoder_run e \<and> \<not> is_file_change e \<and> e \<noteq> Prompt" if "e \<in> set evs" for e
        using evs that by (cases e) auto
      with r m show ?thesis by (auto simp: halt_simps)
    next
      assume "\<exists>crf_value output_file counter subs streams.
        isfile (files w) (input args) \<and> ffprobe w = Streams streams \<and>
        main args c w =
          after [RunProbe [''ffprobe'', ''-v'', ''error'', ''-show_streams'', ''-of'', ''json'', input args]]
            (convert args crf_value w output_file counter subs streams)"
      then obtain crf_value output_file counter subs streams where
        m: "main args c w = after [RunProbe [''ffprobe'', ''-v'', ''error'', ''-show_streams'', ''-of'', ''json'', input args]]
            (convert args crf_value w output_file counter subs streams)"
        by blast
      note cd = convert_declined [OF assms, where crf_value = crf_value and output_file = output_file
          and counter = counter and subs = subs and streams = streams]
      from r m cd(1) show ?thesis
        by (auto simp: after_simps dest: cd(2) cd(3))
    qed
  qed
qed

text \<open>
  Claim C5, witness: the delete option is set, the operator types \<^verbatim>\<open>n\<close>, the prompt is
  reached.
\<close>

theorem declined_confirmation_stops_witness:
  "\<not> no_prompt (demo_options\<lparr>delete := True\<rparr>) \<and> stdin demo_world = Some ''n''
   \<and> lower (strip ''n'') \<noteq> ''y''
   \<and> Prompt \<in> set (trace (movieconvert demo_int (demo_options\<lparr>delete := True\<rparr>) None demo_world))
   \<and> status (movieconvert demo_int (demo_options\<lparr>delete := True\<rparr>) None demo_world) = Exited 0
   \<and> filter (\<lambda>e. is_encoder_run e \<or> is_file_change e)
        (trace (movieconvert demo_int (demo_options\<lparr>delete := True\<rparr>) None demo_world)) = []
   \<and> files_after (movieconvert demo_int (demo_options\<lparr>delete := True\<rparr>) None demo_world) = files demo_world"
proof -
  have h1: "\<not> no_prompt (demo_options\<lparr>delete := True\<rparr>)" by (simp add: demo_options_def)
  have h2: "stdin demo_world = Some ''n''" by (simp add: demo_world_def)
  have h3: "lower (strip ''n'') \<noteq> ''y''" by code_simp
  have p: "Prompt \<in> set (trace (movieconvert demo_int (demo_options\<lparr>delete := True\<rparr>) None demo_world))"
    by code_simp
  from declined_confirmation_stops [OF h1 h2 h3, where int_of = demo_int and crf_text = None] h1 h2 h3 p show ?thesis
    by (simp add: filter_empty_conv)
qed

text \<open>
  Claim C6. When the encoder is run and exits with a non-zero status, the batch tool
  reports the failure and exits with code 1; the encoder was run once, no file is
  removed or renamed, and the files are those the encoder left, whatever the delete
  option says.
\<close>

theorem encoder_failure_is_terminal:
  assumes "RunEncoder cmd \<in> set (trace (movieconvert int_of args crf_text w))"
    and "fst (ffmpeg w cmd (files w)) \<noteq> 0"
  shows "status (movieconvert int_of args crf_text w) = Exited 1
         \<and> ReportEncoderFailure (fst (ffmpeg w cmd (files w))) \<in> set (trace (movieconvert int_of args crf_text w))
         \<and> filter is_encoder_run (trace (movieconvert int_of args crf_text w)) = [RunEncoder cmd]
         \<and> (\<forall>e\<in>set (trace (movieconvert int_of args crf_text w)). \<not> is_file_change e)
         \<and> files_after (movieconvert int_of args crf_text w) = snd (ffmpeg w cmd (files w))"
proof -
  from movieconvert_reaches_encoder [OF assms(1)] obtain pre output_file counter subs p where
    pre: "\<forall>e\<in>set pre. \<not> is_encoder_run e \<and> \<not> is_file_change e"
    and r: "movieconvert int_of args crf_text w
         = (after pre (run_encoder args w cmd output_file counter subs))\<lparr>planned := Some p\<rparr>"
    by blast
  let ?rc = "fst (ffmpeg w cmd (files w))"
  from r have r': "movieconvert int_of args crf_text w
      = (after pre (halt (Exited 1) [RunEncoder cmd, ReportEncoderFailure ?rc] (snd (ffmpeg w cmd (files w)))))
          \<lparr>planned := Some p\<rparr>"
    by (simp add: run_encoder_failed [OF assms(2)])
  from pre have "filter is_encoder_run pre = []" by (simp add: filter_empty_conv)
  with pre show ?thesis
    unfolding r' by (auto simp: after_simps halt_simps)
qed

text \<open>
  Claim C6, witness: the delete option is set, no prompt, and the encoder fails with
  status 1.
\<close>

theorem encoder_failure_is_terminal_witness:
  "RunEncoder
     [''ffmpeg'', ''-i'', ''videos/movie.mkv'', ''-f'', ''srt'', ''-i'', ''videos/movie.srt'',
      ''-map_metadata'', ''-1'', ''-map_chapters'', ''-1'', ''-map'', ''0:0'', ''-map'', ''0:1'',
      ''-map'', ''1:0'', ''-c:v'', ''libx265'', ''-preset'', ''slow'', ''-crf'', ''24'',
      ''-tag:v'', ''hvc1'', ''-c:a'', ''eac3'', ''-c:s'', ''mov_text'',
      ''-metadata:s:a:0'', ''language=eng'', ''-metadata:s:a:0'', ''title=English'',
      ''-metadata:s:s:0'', ''language=eng'', ''-metadata:s:s:0'', ''title=English'',
      ''videos/movie.mp4'']
     \<in> set (trace (movieconvert demo_int (demo_options\<lparr>delete := True, no_prompt := True\<rparr>) None
                     (demo_world\<lparr>ffmpeg := (\<lambda>cmd fs. (1, fs))\<rparr>)))
   \<and> status (movieconvert demo_int (demo_options\<lparr>delete := True, no_prompt := True\<rparr>) None
                (demo_world\<lparr>ffmpeg := (\<lambda>cmd fs. (1, fs))\<rparr>)) = Exited 1
   \<and> ReportEncoderFailure 1
        \<in> set (trace (movieconvert demo_int (demo_options\<lparr>delete := True, no_prompt := True\<rparr>) None
                        (demo_world\<lparr>ffmpeg := (\<lambda>cmd fs. (1, fs))\<rparr>)))
   \<and> filter is_file_change
        (trace (movieconvert demo_int (demo_options\<lparr>delete := True, no_prompt := True\<rparr>) None
                  (demo_world\<lparr>ffmpeg := (\<lambda>cmd fs. (1, fs))\<rparr>))) = []
   \<and> files_after (movieconvert demo_int (demo_options\<lparr>delete := True, no_prompt := True\<rparr>) None
                     (demo_world\<lparr>ffmpeg := (\<lambda>cmd fs. (1, fs))\<rparr>))
       = [''videos/movie.mkv'', ''videos/movie.srt'']"
proof -
  let ?w = "demo_world\<lparr>ffmpeg := (\<lambda>cmd fs. (1, fs))\<rparr>"
  let ?a = "demo_options\<lparr>delete := True, no_prompt := True\<rparr>"
  let ?cmd = "[''ffmpeg'', ''-i'', ''videos/movie.mkv'', ''-f'', ''srt'', ''-i'', ''videos/movie.srt'',
      ''-map_metadata'', ''-1'', ''-map_chapters'', ''-1'', ''-map'', ''0:0'', ''-map'', ''0:1'',
      ''-map'', ''1:0'', ''-c:v'', ''libx265'', ''-preset'', ''slow'', ''-crf'', ''24'',
      ''-tag:v'', ''hvc1'', ''-c:a'', ''eac3'', ''-c:s'', ''mov_text'',
      ''-metadata:s:a:0'', ''language=eng'', ''-metadata:s:a:0'', ''title=English'',
      ''-metadata:s:s:0'', ''language=eng'', ''-metadata:s:s:0'', ''title=English'',
      ''videos/movie.mp4'']"
  have h1: "RunEncoder ?cmd \<in> set (trace (movieconvert demo_int ?a None ?w))" by code_simp
  have h2: "fst (ffmpeg ?w ?cmd (files ?w)) \<noteq> 0" by simp
  have f: "ffmpeg ?w ?cmd (files ?w) = (1, [''videos/movie.mkv'', ''videos/movie.srt''])"
    by (simp add: demo_world_def)
  from encoder_failure_is_terminal [OF h1 h2] h1 show ?thesis
    unfolding f by (simp add: filter_empty_conv)
qed

lemma planned_main_from_input:
  assumes "files w1 = files w2" and "dirs w1 = dirs w2" and "ffprobe w1 = ffprobe w2"
  shows "planned (main_from_input args cv w1) = planned (main_from_input args cv w2)"
  using assms
  by (simp add: main_from_input_def convert_def Let_def after_def halt_def
           split: sum.splits option.splits probe.splits prod.splits)

text \<open>
  Claim C3. Two runs with the same options that see the same files, the same directory
  listings and the same inspection output derive the same output file name, the same
  selected streams and the same encoder arguments, whatever the operator types and
  whatever the encoder does; and the arguments the encoder is run with are those of
  the plan.
\<close>

theorem plan_is_determined:
  assumes "files w1 = files w2" and "dirs w1 = dirs w2" and "ffprobe w1 = ffprobe w2"
  shows "planned (movieconvert int_of args crf_text w1) = planned (movieconvert int_of args crf_text w2)
         \<and> (\<forall>cmd. RunEncoder cmd \<in> set (trace (movieconvert int_of args crf_text w1))
               \<longrightarrow> (\<exists>p. planned (movieconvert int_of args crf_text w1) = Some p \<and> p_cmd p = Inr cmd))"
proof
  show "planned (movieconvert int_of args crf_text w1) = planned (movieconvert int_of args crf_text w2)"
    using assms(1) planned_main_from_input [OF assms]
    by (simp add: movieconvert_def main_def halt_simps split: sum.splits option.splits)
  show "\<forall>cmd. RunEncoder cmd \<in> set (trace (movieconvert int_of args crf_text w1))
               \<longrightarrow> (\<exists>p. planned (movieconvert int_of args crf_text w1) = Some p \<and> p_cmd p = Inr cmd)"
  proof (intro allI impI)
    fix cmd
    assume "RunEncoder cmd \<in> set (trace (movieconvert int_of args crf_text w1))"
    from movieconvert_reaches_encoder [OF this] show
      "\<exists>p. planned (movieconvert int_of args crf_text w1) = Some p \<and> p_cmd p = Inr cmd"
      by auto
  qed
qed

text \<open>
  Claim C3, witness: two worlds that differ in the operator's answer and in the encoder
  give the same plan and different traces.
\<close>

theorem plan_is_determined_witness:
  "files demo_world = files (demo_world\<lparr>stdin := Some ''y'', ffmpeg := (\<lambda>cmd fs. (1, fs))\<rparr>)
   \<and> dirs demo_world = dirs (demo_world\<lparr>stdin := Some ''y'', ffmpeg := (\<lambda>cmd fs. (1, fs))\<rparr>)
   \<and> ffprobe demo_world = ffprobe (demo_world\<lparr>stdin := Some ''y'', ffmpeg := (\<lambda>cmd fs. (1, fs))\<rparr>)
   \<and> planned (movieconvert demo_int demo_options None demo_world)
       = planned (movieconvert demo_int demo_options None (demo_world\<lparr>stdin := Some ''y'', ffmpeg := (\<lambda>cmd fs. (1, fs))\<rparr>))
   \<and> trace (movieconvert demo_int demo_options None demo_world)
       \<noteq> trace (movieconvert demo_int demo_options None (demo_world\<lparr>stdin := Some ''y'', ffmpeg := (\<lambda>cmd fs. (1, fs))\<rparr>))"
proof -
  let ?w = "demo_world\<lparr>stdin := Some ''y'', ffmpeg := (\<lambda>cmd fs. (1, fs))\<rparr>"
  have h: "files demo_world = files ?w" "dirs demo_world = dirs ?w" "ffprobe demo_world = ffprobe ?w"
    by simp_all
  have t: "trace (movieconvert demo_int demo_options None demo_world) \<noteq> trace (movieconvert demo_int demo_options None ?w)"
    by code_simp
  from plan_is_determined [OF h, where int_of = demo_int and args = demo_options and crf_text = None] h t show ?thesis by blast
qed

section \<open>Classification of subtitle file names\<close>

lemma lower_upper_disjoint: "set lower_letters \<inter> set upper_letters = {}"
  by (simp add: upper_letters_def lower_letters_def)

lemma length_letters: "length upper_letters = length lower_letters"
  by (simp add: upper_letters_def lower_letters_def)

lemma lower_char_id: "c \<notin> set upper_letters \<Longrightarrow> lower_char c = c"
proof -
  assume "c \<notin> set upper_letters"
  then have "map_of (zip upper_letters lower_letters) c = None"
    using map_of_zip_is_None [OF length_letters] by simp
  then show ?thesis by (simp add: lower_char_def)
qed

lemma lower_char_lower: "is_lower c \<Longrightarrow> lower_char c = c"
  using lower_upper_disjoint by (intro lower_char_id) (auto simp: is_lower_def)

lemma lower_char_range: "c \<in> set upper_letters \<Longrightarrow> lower_char c \<in> set lower_letters"
proof -
  assume "c \<in> set upper_letters"
  then obtain d where d: "map_of (zip upper_letters lower_letters) c = Some d"
    by (metis length_letters map_of_zip_is_None not_Some_eq)
  then have "d \<in> set lower_letters"
    by (meson in_set_zipE map_of_SomeD)
  with d show ?thesis by (simp add: lower_char_def)
qed

lemma not_letters:
  "CHR ''.'' \<notin> set upper_letters" "CHR ''.'' \<notin> set lower_letters"
  "CHR 0x0A \<notin> set upper_letters" "CHR 0x0A \<notin> set lower_letters"
  by (simp_all add: upper_letters_def lower_letters_def)

lemma lower_char_dot: "lower_char c = CHR ''.'' \<longleftrightarrow> c = CHR ''.''"
  by (metis not_letters(1,2) lower_char_id lower_char_range)








lemma split_acc_plain: "sep \<notin> set xs \<Longrightarrow> split_acc sep cur xs = [cur @ xs]"
  by (induction xs arbitrary: cur) auto


































text \<open>The base name of a file is not empty.\<close>

lemma base_name_not_empty: "basename p \<noteq> [] \<Longrightarrow> fst (splitext (basename p)) \<noteq> []"
  by (auto simp: splitext_def Let_def)




end
